theory Spec2Isabelle
  imports Main "HOL-Library.Word"
begin

unbundle bit_operations_syntax

section \<open>Message peeking in pkg/pulsar/subscription.go\<close>

text \<open>
  The development follows \<^verbatim>\<open>PeekMessages\<close>, \<^verbatim>\<open>peekNthMessage\<close>, \<^verbatim>\<open>handleResp\<close> and
  \<^verbatim>\<open>getIndividualMsgsFromBatch\<close>. Go values that are shared by reference (the properties
  map) live in an explicit store; an error return and a run-time panic are both the left
  side of a sum.
\<close>

subsection \<open>Data\<close>

type_synonym byte = "8 word"

datatype error =
    EOF                 \<comment> \<open>io.EOF\<close>
  | ErrUnexpectedEOF    \<comment> \<open>io.ErrUnexpectedEOF\<close>
  | UnmarshalError      \<comment> \<open>the error of proto.Unmarshal\<close>
  | ParseError          \<comment> \<open>the error of utils.ParseMessageID\<close>
  | ReadError           \<comment> \<open>the error of ioutil.ReadAll\<close>
  | RequestError        \<comment> \<open>the error of newRequest, doRequest or checkSuccessful\<close>
  | RuntimePanic        \<comment> \<open>a run-time panic: no value is returned at all\<close>

text \<open>
  Modelled from the spec: \<^verbatim>\<open>utils.MessageID\<close> is declared outside the files at hand. The
  spec gives it a ledger/entry coordinate and a BatchIndex.
\<close>

record MessageID =
  LedgerID :: int
  EntryID :: int
  BatchIndex :: int

text \<open>
  Modelled from the spec: \<^verbatim>\<open>utils.SingleMessageMetadata\<close> and its key/value record are
  the generated protobuf types, declared outside the files at hand; the code reads the
  property list and the payload size (an int32). Key and Value are pointers to strings in
  the generated code: None is the nil pointer, which the code dereferences unchecked.
\<close>

record KeyValue =
  Key :: "string option"
  Value :: "string option"

record SingleMessageMetadata =
  Properties :: "KeyValue list"
  PayloadSize :: "32 word"

text \<open>
  A Go map is a reference: \<^verbatim>\<open>properties\<close> is one object that every Message of a batch
  points to. The store maps a reference to the map's current content.
\<close>

type_synonym ref = nat

record heap =
  maps :: "ref \<Rightarrow> (string \<rightharpoonup> string)"
  nextRef :: ref

definition newMap :: "heap \<Rightarrow> ref \<times> heap" where
  \<comment> \<open>make(map[string]string)\<close>
  "newMap h = (nextRef h, \<lparr>maps = (maps h)(nextRef h := Map.empty), nextRef = Suc (nextRef h)\<rparr>)"

definition mapStore :: "heap \<Rightarrow> ref \<Rightarrow> string \<Rightarrow> string \<Rightarrow> heap" where
  \<comment> \<open>m[k] = v\<close>
  "mapStore h r k v = \<lparr>maps = (maps h)(r := (maps h r)(k \<mapsto> v)), nextRef = nextRef h\<rparr>"

definition mapLoad :: "heap \<Rightarrow> ref \<Rightarrow> string \<Rightarrow> string" where
  \<comment> \<open>m[k]: the empty string when the key is absent\<close>
  "mapLoad h r k = (case maps h r k of None \<Rightarrow> [] | Some v \<Rightarrow> v)"

text \<open>
  Modelled from the spec: \<^verbatim>\<open>utils.Message\<close> is declared outside the files at hand; its
  four fields are the ones the composite literal in getIndividualMsgsFromBatch sets. The
  Properties field holds the reference of the map, not a copy of it.
\<close>

record Message =
  Topic :: string
  MessageID :: MessageID
  Payload :: "byte list"
  Properties :: ref

definition NewMessage :: "string \<Rightarrow> MessageID \<Rightarrow> byte list \<Rightarrow> ref \<Rightarrow> Message" where
  \<comment> \<open>Modelled from the spec: utils.NewMessage is outside the files at hand; it fills the four fields.\<close>
  "NewMessage topic ID payload properties =
     \<lparr>Topic = topic, MessageID = ID, Payload = payload, Properties = properties\<rparr>"

definition propsOf :: "heap \<Rightarrow> Message \<Rightarrow> (string \<rightharpoonup> string)" where
  \<comment> \<open>what a caller reads in m.Properties once the call has returned with store h\<close>
  "propsOf h m = maps h (Message.Properties m)"

text \<open>An http.Response as far as handleResp reads it: the header map and the body.\<close>

record Response =
  Header :: "(string \<times> string list) list"
  Body :: "error + byte list"

subsection \<open>Standard library\<close>

definition PublishTimeHeader :: string where
  "PublishTimeHeader = ''X-Pulsar-Publish-Time''"

definition BatchHeader :: string where
  "BatchHeader = ''X-Pulsar-Num-Batch-Message''"

definition PropertyPrefix :: string where
  "PropertyPrefix = ''X-Pulsar-PROPERTY-''"

fun HasPrefix :: "string \<Rightarrow> string \<Rightarrow> bool" where
  "HasPrefix s [] = True"
| "HasPrefix [] (p # ps) = False"
| "HasPrefix (c # cs) (p # ps) = (c = p \<and> HasPrefix cs ps)"

fun Contains :: "string \<Rightarrow> string \<Rightarrow> bool" where
  "Contains [] sub = (sub = [])"
| "Contains (c # cs) sub = (HasPrefix (c # cs) sub \<or> Contains cs sub)"

definition TrimPrefix :: "string \<Rightarrow> string \<Rightarrow> string" where
  "TrimPrefix s p = (if HasPrefix s p then drop (length p) s else s)"

text \<open>
  strconv.Atoi on a 64-bit platform: an optional sign, then one or more decimal digits,
  and the value must fit an int.
\<close>

definition isDigit :: "char \<Rightarrow> bool" where
  "isDigit c = (c \<in> set ''0123456789'')"

definition digitVal :: "char \<Rightarrow> int" where
  "digitVal c = (case map_of (zip ''0123456789'' [0, 1, 2, 3, 4, 5, 6, 7, 8, 9]) c of
                   None \<Rightarrow> 0 | Some d \<Rightarrow> d)"

fun parseDigits :: "string \<Rightarrow> int \<Rightarrow> int option" where
  "parseDigits [] n = Some n"
| "parseDigits (ch # cs) n = (if isDigit ch then parseDigits cs (n * 10 + digitVal ch) else None)"

definition Atoi :: "string \<Rightarrow> int option" where
  "Atoi s =
     (case s of
        [] \<Rightarrow> None
      | c # cs \<Rightarrow>
          (let ds = (if c = CHR ''-'' \<or> c = CHR ''+'' then cs else s) in
           if ds = [] then None
           else (case parseDigits ds 0 of
                   None \<Rightarrow> None
                 | Some n \<Rightarrow>
                     (let v = (if c = CHR ''-'' then - n else n) in
                      if - (2 ^ 63) \<le> v \<and> v < 2 ^ 63 then Some v else None))))"

text \<open>
  textproto.CanonicalMIMEHeaderKey: a key with a byte that is not a header field byte is
  returned as it is; otherwise the first letter and every letter after a hyphen become
  upper case and all other letters lower case.
\<close>

definition validHeaderFieldByte :: "char \<Rightarrow> bool" where
  "validHeaderFieldByte c =
     (c \<in> set ''0123456789abcdefghijklmnopqrstuvwxyzABCDEFGHIJKLMNOPQRSTUVWXYZ!#$%&*+-.^_|~''
      \<or> c = CHR 0x27 \<or> c = CHR 0x60)"

definition toUpperASCII :: "char \<Rightarrow> char" where
  "toUpperASCII c =
     (case map_of (zip ''abcdefghijklmnopqrstuvwxyz'' ''ABCDEFGHIJKLMNOPQRSTUVWXYZ'') c of
        None \<Rightarrow> c | Some u \<Rightarrow> u)"

definition toLowerASCII :: "char \<Rightarrow> char" where
  "toLowerASCII c =
     (case map_of (zip ''ABCDEFGHIJKLMNOPQRSTUVWXYZ'' ''abcdefghijklmnopqrstuvwxyz'') c of
        None \<Rightarrow> c | Some l \<Rightarrow> l)"

fun canonicalCase :: "bool \<Rightarrow> string \<Rightarrow> string" where
  "canonicalCase upper [] = []"
| "canonicalCase upper (c # cs) =
     (let c' = (if upper then toUpperASCII c else toLowerASCII c)
      in c' # canonicalCase (c' = CHR ''-'') cs)"

definition CanonicalMIMEHeaderKey :: "string \<Rightarrow> string" where
  "CanonicalMIMEHeaderKey s = (if list_all validHeaderFieldByte s then canonicalCase True s else s)"

definition Header_Get :: "(string \<times> string list) list \<Rightarrow> string \<Rightarrow> string" where
  \<comment> \<open>http.Header.Get: the first value stored under the canonical form of the key, or the empty string\<close>
  "Header_Get hdr key =
     (case map_of hdr (CanonicalMIMEHeaderKey key) of
        None \<Rightarrow> []
      | Some vs \<Rightarrow> (case vs of [] \<Rightarrow> [] | v # _ \<Rightarrow> v))"

text \<open>
  bytes.Reader is modelled by the bytes not yet read. io.ReadFull for a buffer of n bytes:
  nothing is read for an empty buffer; io.EOF when no byte is left; io.ErrUnexpectedEOF
  when some but fewer than n bytes are left.
\<close>

definition ReadFull :: "byte list \<Rightarrow> nat \<Rightarrow> error + (byte list \<times> byte list)" where
  "ReadFull rdBuf n =
     (if n = 0 then Inr ([], rdBuf)
      else if rdBuf = [] then Inl EOF
      else if length rdBuf < n then Inl ErrUnexpectedEOF
      else Inr (take n rdBuf, drop n rdBuf))"

definition BigEndian_Uint32 :: "byte list \<Rightarrow> 32 word" where
  \<comment> \<open>binary.BigEndian.Uint32 of the four bytes of buf32\<close>
  "BigEndian_Uint32 b =
     (ucast (b ! 3) OR push_bit 8 (ucast (b ! 2)) OR push_bit 16 (ucast (b ! 1))
      OR push_bit 24 (ucast (b ! 0)))"

subsection \<open>getIndividualMsgsFromBatch\<close>

text \<open>
  \<^verbatim>\<open>proto.Unmarshal\<close> is a parameter U of the model: None is its error. The loop body
  keeps the order of the source: the properties of the record are stored into the shared
  map before the payload is read, and make([]byte, n) panics for a negative n. Reading
  \<^verbatim>\<open>*v.Key\<close> or \<^verbatim>\<open>*v.Value\<close> panics for a nil pointer; both are read before the
  store into the map.

  make([]*utils.Message, 0, batchSize) panics (makeslice: cap out of range) for a negative
  batchSize and for one whose 8-byte elements exceed the allocation limit of the 64-bit
  runtime, 2^48 bytes: that is for a batchSize above 2^45. Running out of memory below
  that limit is a fatal error of the process and outside the model.
\<close>

definition maxSliceCap :: int where
  "maxSliceCap = 2 ^ 45"

fun addProperties :: "heap \<Rightarrow> ref \<Rightarrow> KeyValue list \<Rightarrow> error option \<times> heap" where
  "addProperties h properties [] = (None, h)"
| "addProperties h properties (v # vs) =
     (case Key v of
        None \<Rightarrow> (Some RuntimePanic, h)
      | Some k \<Rightarrow>
          (case Value v of
             None \<Rightarrow> (Some RuntimePanic, h)
           | Some property \<Rightarrow> addProperties (mapStore h properties k property) properties vs))"

function batchLoop ::
  "(byte list \<Rightarrow> SingleMessageMetadata option) \<Rightarrow> string \<Rightarrow> MessageID \<Rightarrow> byte list \<Rightarrow>
   int \<Rightarrow> int \<Rightarrow> Message list \<Rightarrow> ref \<Rightarrow> heap \<Rightarrow> (error + Message list) \<times> heap" where
  "batchLoop U topic msgID rdBuf i batchSize msgs properties h =
     (if i < batchSize then
        (case ReadFull rdBuf 4 of
           Inl e \<Rightarrow> (Inl e, h)
         | Inr (buf32, rd1) \<Rightarrow>
             (case ReadFull rd1 (unat (BigEndian_Uint32 buf32)) of
                Inl e \<Rightarrow> (Inl e, h)
              | Inr (singleMetaBuf, rd2) \<Rightarrow>
                  (case U singleMetaBuf of
                     None \<Rightarrow> (Inl UnmarshalError, h)
                   | Some singleMeta \<Rightarrow>
                       (case addProperties h properties
                               (SingleMessageMetadata.Properties singleMeta) of
                          (Some e, h1) \<Rightarrow> (Inl e, h1)
                        | (None, h1) \<Rightarrow>
                            if sint (PayloadSize singleMeta) < 0 then (Inl RuntimePanic, h1)
                            else
                              (case ReadFull rd2 (nat (sint (PayloadSize singleMeta))) of
                                 Inl e \<Rightarrow> (Inl e, h1)
                               | Inr (singlePayload, rd3) \<Rightarrow>
                                   batchLoop U topic msgID rd3 (i + 1) batchSize
                                     (msgs @ [\<lparr>Topic = topic, MessageID = msgID\<lparr>BatchIndex := i\<rparr>,
                                               Payload = singlePayload, Properties = properties\<rparr>])
                                     properties h1)))))
      else (Inr msgs, h))"
  by pat_completeness auto
termination
  by (relation "measure (\<lambda>(U, topic, msgID, rdBuf, i, batchSize, msgs, properties, h). nat (batchSize - i))") auto

definition getIndividualMsgsFromBatch ::
  "(byte list \<Rightarrow> SingleMessageMetadata option) \<Rightarrow> string \<Rightarrow> MessageID \<Rightarrow> byte list \<Rightarrow>
   ref \<Rightarrow> heap \<Rightarrow> (error + Message list) \<times> heap" where
  "getIndividualMsgsFromBatch U topic msgID data properties h =
     (case Atoi (mapLoad h properties BatchHeader) of
        None \<Rightarrow> (Inr [], h)
      | Some batchSize \<Rightarrow>
          if batchSize < 0 \<or> maxSliceCap < batchSize then (Inl RuntimePanic, h)
          else batchLoop U topic msgID data 0 batchSize [] properties h)"

subsection \<open>handleResp\<close>

text \<open>
  \<^verbatim>\<open>utils.ParseMessageID\<close> is a parameter parseID of the model. The header map is an
  association list: its order is the order in which this run of \<^verbatim>\<open>range resp.Header\<close>
  yields the keys, which Go leaves unspecified. The statement after the loop is the
  base case of the recursion.
\<close>

fun headerLoop ::
  "(byte list \<Rightarrow> SingleMessageMetadata option) \<Rightarrow> string \<Rightarrow> MessageID \<Rightarrow> byte list \<Rightarrow>
   (string \<times> string list) list \<Rightarrow> string list \<Rightarrow> ref \<Rightarrow> heap \<Rightarrow> (error + Message list) \<times> heap" where
  "headerLoop U topic ID payload hdr [] properties h =
     (Inr [NewMessage topic ID payload properties], h)"
| "headerLoop U topic ID payload hdr (k # ks) properties h =
     (if k = PublishTimeHeader then
        headerLoop U topic ID payload hdr ks properties
          (if Header_Get hdr k = [] then h else mapStore h properties ''publish-time'' (Header_Get hdr k))
      else if k = BatchHeader then
        getIndividualMsgsFromBatch U topic ID payload properties
          (if Header_Get hdr k = [] then h else mapStore h properties BatchHeader (Header_Get hdr k))
      else if Contains k PropertyPrefix then
        headerLoop U topic ID payload hdr ks properties
          (mapStore h properties (TrimPrefix k PropertyPrefix) (Header_Get hdr k))
      else headerLoop U topic ID payload hdr ks properties h)"

definition handleResp ::
  "(byte list \<Rightarrow> SingleMessageMetadata option) \<Rightarrow> (string \<Rightarrow> error + MessageID) \<Rightarrow> string \<Rightarrow>
   Response \<Rightarrow> heap \<Rightarrow> (error + Message list) \<times> heap" where
  "handleResp U parseID topic resp h =
     (case parseID (Header_Get (Header resp) ''X-Pulsar-Message-ID'') of
        Inl e \<Rightarrow> (Inl e, h)
      | Inr ID \<Rightarrow>
          (case Body resp of
             Inl e \<Rightarrow> (Inl e, h)
           | Inr payload \<Rightarrow>
               (case newMap h of
                  (properties, h1) \<Rightarrow>
                    headerLoop U topic ID payload (Header resp) (map fst (Header resp)) properties h1)))"

subsection \<open>peekNthMessage and PeekMessages\<close>

text \<open>
  The client (endpoint, newRequest, doRequest, checkSuccessful) is a parameter of the
  model: \<open>server pos\<close> is what the GET for backlog position \<open>pos\<close> of the topic and
  subscription comes back with, an error or a successful response. The loop of
  PeekMessages has no bound of its own, so it is a partial function: None is a run that
  never returns. Besides the result it returns the positions requested, in order.
\<close>

definition peekNthMessage ::
  "(byte list \<Rightarrow> SingleMessageMetadata option) \<Rightarrow> (string \<Rightarrow> error + MessageID) \<Rightarrow>
   (int \<Rightarrow> error + Response) \<Rightarrow> string \<Rightarrow> int \<Rightarrow> heap \<Rightarrow> (error + Message list) \<times> heap" where
  "peekNthMessage U parseID server topic pos h =
     (case server pos of
        Inl e \<Rightarrow> (Inl e, h)
      | Inr resp \<Rightarrow> handleResp U parseID topic resp h)"

partial_function (option) peekLoop ::
  "(byte list \<Rightarrow> SingleMessageMetadata option) \<Rightarrow> (string \<Rightarrow> error + MessageID) \<Rightarrow>
   (int \<Rightarrow> error + Response) \<Rightarrow> string \<Rightarrow> int \<Rightarrow> int \<Rightarrow> Message list \<Rightarrow> int list \<Rightarrow> heap \<Rightarrow>
   ((error + Message list) \<times> int list \<times> heap) option" where
  "peekLoop U parseID server topic n count msgs reqs h =
     (if n > 0 then
        (case peekNthMessage U parseID server topic count h of
           (Inl e, h') \<Rightarrow> Some (Inl e, reqs @ [count], h')
         | (Inr m, h') \<Rightarrow>
             peekLoop U parseID server topic (n - int (length m)) (count + 1) (msgs @ m)
               (reqs @ [count]) h')
      else Some (Inr msgs, reqs, h))"

definition PeekMessages ::
  "(byte list \<Rightarrow> SingleMessageMetadata option) \<Rightarrow> (string \<Rightarrow> error + MessageID) \<Rightarrow>
   (int \<Rightarrow> error + Response) \<Rightarrow> string \<Rightarrow> int \<Rightarrow> heap \<Rightarrow>
   ((error + Message list) \<times> int list \<times> heap) option" where
  "PeekMessages U parseID server topic n h = peekLoop U parseID server topic n 1 [] [] h"

subsection \<open>The record decoder of the batch format, on its own\<close>

text \<open>
  The spec's Batch Metadata Decoder, written after its words (length prefix, metadata,
  payload, each failing when too few bytes are left) with the primitives above, so that
  "record j fails to decode" can be said without running the loop. It fails as the loop
  body does, also where the body panics (a nil key or value, a negative payload size).
  \<open>afterRecords U j rd\<close> is the reader after j records have decoded from rd.
\<close>

definition propertiesPresent :: "KeyValue list \<Rightarrow> bool" where
  "propertiesPresent vs = list_all (\<lambda>v. Key v \<noteq> None \<and> Value v \<noteq> None) vs"

definition decodeRecord ::
  "(byte list \<Rightarrow> SingleMessageMetadata option) \<Rightarrow> byte list \<Rightarrow>
   error + (SingleMessageMetadata \<times> byte list \<times> byte list)" where
  "decodeRecord U rdBuf =
     (case ReadFull rdBuf 4 of
        Inl e \<Rightarrow> Inl e
      | Inr (buf32, rd1) \<Rightarrow>
          (case ReadFull rd1 (unat (BigEndian_Uint32 buf32)) of
             Inl e \<Rightarrow> Inl e
           | Inr (singleMetaBuf, rd2) \<Rightarrow>
               (case U singleMetaBuf of
                  None \<Rightarrow> Inl UnmarshalError
                | Some singleMeta \<Rightarrow>
                    if propertiesPresent (SingleMessageMetadata.Properties singleMeta) then
                      (if sint (PayloadSize singleMeta) < 0 then Inl RuntimePanic
                       else
                         (case ReadFull rd2 (nat (sint (PayloadSize singleMeta))) of
                            Inl e \<Rightarrow> Inl e
                          | Inr (singlePayload, rd3) \<Rightarrow> Inr (singleMeta, singlePayload, rd3)))
                    else Inl RuntimePanic)))"


subsection \<open>Observations on a result\<close>

definition numMsgs :: "(error + Message list) \<times> heap \<Rightarrow> nat option" where
  \<comment> \<open>how many Messages a call returned; None when it returned none because it failed\<close>
  "numMsgs r = (case fst r of Inl e \<Rightarrow> None | Inr msgs \<Rightarrow> Some (length msgs))"

definition msgProperty :: "(error + Message list) \<times> heap \<Rightarrow> nat \<Rightarrow> string \<Rightarrow> string option" where
  \<comment> \<open>msgs[i].Properties[k] as the caller reads it after the call\<close>
  "msgProperty r i k =
     (case fst r of
        Inl e \<Rightarrow> None
      | Inr msgs \<Rightarrow> if i < length msgs then propsOf (snd r) (msgs ! i) k else None)"

definition requestsWithin ::
  "int \<Rightarrow> ((error + Message list) \<times> int list \<times> heap) option \<Rightarrow> bool" where
  \<comment> \<open>the call returned and issued at most n requests\<close>
  "requestsWithin n r =
     (case r of None \<Rightarrow> False | Some (res, reqs, h) \<Rightarrow> int (length reqs) \<le> n)"

definition nonEmptyAnswer :: "(error + Message list) \<times> heap \<Rightarrow> bool" where
  \<comment> \<open>a peek step that fails or returns at least one Message\<close>
  "nonEmptyAnswer r = (case fst r of Inl e \<Rightarrow> True | Inr m \<Rightarrow> m \<noteq> [])"

definition requestsOf :: "((error + Message list) \<times> int list \<times> heap) option \<Rightarrow> int list option" where
  "requestsOf r = (case r of None \<Rightarrow> None | Some (res, reqs, h) \<Rightarrow> Some reqs)"

definition payloadsOf ::
  "((error + Message list) \<times> int list \<times> heap) option \<Rightarrow> byte list list option" where
  "payloadsOf r =
     (case r of
        None \<Rightarrow> None
      | Some (res, reqs, h) \<Rightarrow> (case res of Inl e \<Rightarrow> None | Inr msgs \<Rightarrow> Some (map Payload msgs)))"

subsection \<open>Concrete inputs\<close>

text \<open>
  The inputs at which the theorems below are instantiated. \<open>exampleUnmarshal\<close> gives three
  protobuf encodings of a SingleMessageMetadata their decoding (field 1, a key/value
  record, is 0A; field 3, the payload size, is 18) and refuses every other input;
  \<open>exampleParseID\<close> reads one message id. Both stand for the parameters U and parseID.
  Header keys are written as net/http stores them, in canonical form, unless said otherwise.
\<close>

definition emptyHeap :: heap where
  "emptyHeap = \<lparr>maps = (\<lambda>r. Map.empty), nextRef = 0\<rparr>"

definition exampleUnmarshal :: "byte list \<Rightarrow> SingleMessageMetadata option" where
  "exampleUnmarshal b =
     (if b = [0x18, 0x01] then
        Some \<lparr>SingleMessageMetadata.Properties = [], PayloadSize = 1\<rparr>
      else if b = [0x0A, 0x06, 0x0A, 0x01, 0x61, 0x12, 0x01, 0x31, 0x18, 0x01] then
        Some \<lparr>SingleMessageMetadata.Properties = [\<lparr>Key = Some ''a'', Value = Some ''1''\<rparr>],
              PayloadSize = 1\<rparr>
      else if b = [0x0A, 0x06, 0x0A, 0x01, 0x62, 0x12, 0x01, 0x32, 0x18, 0x01] then
        Some \<lparr>SingleMessageMetadata.Properties = [\<lparr>Key = Some ''b'', Value = Some ''2''\<rparr>],
              PayloadSize = 1\<rparr>
      else None)"

definition exampleID :: MessageID where
  "exampleID = \<lparr>LedgerID = 7, EntryID = 3, BatchIndex = 0\<rparr>"

definition exampleParseID :: "string \<Rightarrow> error + MessageID" where
  "exampleParseID s = (if s = ''7:3'' then Inr exampleID else Inl ParseError)"

definition exampleBatch :: "byte list" where
  \<comment> \<open>two records: properties a=1 and payload 78, properties b=2 and payload 79\<close>
  "exampleBatch =
     [0, 0, 0, 10, 0x0A, 0x06, 0x0A, 0x01, 0x61, 0x12, 0x01, 0x31, 0x18, 0x01, 0x78,
      0, 0, 0, 10, 0x0A, 0x06, 0x0A, 0x01, 0x62, 0x12, 0x01, 0x32, 0x18, 0x01, 0x79]"

definition batchStore :: "string \<Rightarrow> heap" where
  \<comment> \<open>the store handleResp hands over: map 0 holds the batch-size header value n\<close>
  "batchStore n = mapStore (snd (newMap emptyHeap)) 0 BatchHeader n"

definition exampleMsgs :: "Message list" where
  "exampleMsgs =
     [\<lparr>Topic = ''t'', MessageID = \<lparr>LedgerID = 7, EntryID = 3, BatchIndex = 0\<rparr>,
       Payload = [0x78], Properties = 0\<rparr>,
      \<lparr>Topic = ''t'', MessageID = \<lparr>LedgerID = 7, EntryID = 3, BatchIndex = 1\<rparr>,
       Payload = [0x79], Properties = 0\<rparr>]"

definition plainResp :: Response where
  "plainResp =
     \<lparr>Header = [(''X-Pulsar-Message-Id'', [''7:3'']), (''X-Pulsar-Publish-Time'', [''12:00''])],
      Body = Inr [0x78, 0x79]\<rparr>"

definition negativeBatchResp :: Response where
  "negativeBatchResp =
     \<lparr>Header = [(''X-Pulsar-Message-Id'', [''7:3'']), (''X-Pulsar-Num-Batch-Message'', [''-1''])],
      Body = Inr []\<rparr>"

definition deliveredPropertyResp :: Response where
  \<comment> \<open>the header X-Pulsar-PROPERTY-foo: bar of the wire, under the key net/http stores it\<close>
  "deliveredPropertyResp =
     \<lparr>Header = [(''X-Pulsar-Message-Id'', [''7:3'']), (''X-Pulsar-Property-Foo'', [''bar''])],
      Body = Inr [0x78]\<rparr>"

definition literalPropertyResp :: Response where
  \<comment> \<open>a header map filled by hand with the key as the wire spells it\<close>
  "literalPropertyResp =
     \<lparr>Header = [(''X-Pulsar-Message-Id'', [''7:3'']), (''X-Pulsar-PROPERTY-foo'', [''bar''])],
      Body = Inr [0x78]\<rparr>"

definition batchFirstResp :: Response where
  \<comment> \<open>a batch of one record; the range loop yields the batch-size key before the property key\<close>
  "batchFirstResp =
     \<lparr>Header = [(''X-Pulsar-Message-Id'', [''7:3'']), (''X-Pulsar-Num-Batch-Message'', [''1'']),
                (''X-Pulsar-PROPERTY-foo'', [''bar''])],
      Body = Inr [0, 0, 0, 2, 0x18, 0x01, 0x78]\<rparr>"

definition singleServer :: "int \<Rightarrow> error + Response" where
  \<comment> \<open>every position answers with one non-batched message whose payload is the position\<close>
  "singleServer pos =
     Inr \<lparr>Header = [(''X-Pulsar-Message-Id'', [''7:3''])], Body = Inr [word_of_int pos]\<rparr>"

definition emptyThenSingleServer :: "int \<Rightarrow> error + Response" where
  \<comment> \<open>position 1 answers with a batch of declared size 0, every other position as singleServer\<close>
  "emptyThenSingleServer pos =
     (if pos = 1 then
        Inr \<lparr>Header = [(''X-Pulsar-Message-Id'', [''7:3'']), (''X-Pulsar-Num-Batch-Message'', [''0''])],
             Body = Inr []\<rparr>
      else singleServer pos)"

section \<open>Properties\<close>

declare batchLoop.simps [simp del]

subsection \<open>The batch loop\<close>

lemma batchLoop_done:
  "\<not> i < batchSize \<Longrightarrow>
   batchLoop U topic msgID rdBuf i batchSize msgs properties h = (Inr msgs, h)"
  by (subst batchLoop.simps) simp

lemma addProperties_fst:
  "fst (addProperties h properties vs) = (if propertiesPresent vs then None else Some RuntimePanic)"
  by (induction vs arbitrary: h) (auto simp: propertiesPresent_def split: option.splits)

lemma batchLoop_fail:
  assumes "i < batchSize" and "decodeRecord U rdBuf = Inl e"
  shows "fst (batchLoop U topic msgID rdBuf i batchSize msgs properties h) = Inl e"
proof -
  have ap: "addProperties h properties vs = (x, h1) \<Longrightarrow>
            x = (if propertiesPresent vs then None else Some RuntimePanic)" for vs x h1
    using addProperties_fst[of h properties vs] by simp
  show ?thesis
    using assms
    by (subst batchLoop.simps)
       (auto simp: decodeRecord_def split: sum.splits option.splits if_splits prod.splits
             dest: ap)
qed

lemma batchLoop_step:
  assumes "i < batchSize" and "decodeRecord U rdBuf = Inr (singleMeta, singlePayload, rd3)"
  shows "batchLoop U topic msgID rdBuf i batchSize msgs properties h =
         batchLoop U topic msgID rd3 (i + 1) batchSize
           (msgs @ [\<lparr>Topic = topic, MessageID = msgID\<lparr>BatchIndex := i\<rparr>,
                     Payload = singlePayload, Properties = properties\<rparr>])
           properties
           (snd (addProperties h properties (SingleMessageMetadata.Properties singleMeta)))"
proof -
  have ap: "addProperties h properties vs = (x, h1) \<Longrightarrow>
            x = (if propertiesPresent vs then None else Some RuntimePanic)" for vs x h1
    using addProperties_fst[of h properties vs] by simp
  show ?thesis
    using assms
    by (subst batchLoop.simps)
       (auto simp: decodeRecord_def split: sum.splits option.splits if_splits prod.splits
             dest: ap)
qed

text \<open>
  A run of the loop that returns Messages has appended one per remaining index, each with
  the topic, the shared id under its own index, and the reference of the one shared map.
\<close>

lemma batchLoop_Inr:
  "batchLoop U topic msgID rdBuf i batchSize msgs properties h = (Inr out, h') \<Longrightarrow>
   \<exists>new. out = msgs @ new \<and> length new = nat (batchSize - i) \<and>
     (\<forall>j < length new.
        Topic (new ! j) = topic \<and> MessageID (new ! j) = msgID\<lparr>BatchIndex := i + int j\<rparr> \<and>
        Message.Properties (new ! j) = properties)"
proof (induction "nat (batchSize - i)" arbitrary: rdBuf i msgs h)
  case 0
  then have "\<not> i < batchSize" by simp
  with "0.prems" show ?case by (simp add: batchLoop_done)
next
  case (Suc n)
  then have lt: "i < batchSize" by simp
  have "\<exists>x. decodeRecord U rdBuf = Inr x"
  proof (cases "decodeRecord U rdBuf")
    case (Inl e)
    from batchLoop_fail[OF lt Inl, of topic msgID msgs properties h] Suc.prems
    show ?thesis by simp
  next
    case (Inr x)
    then show ?thesis by blast
  qed
  then obtain singleMeta singlePayload rd3 where
    d: "decodeRecord U rdBuf = Inr (singleMeta, singlePayload, rd3)"
    by (metis prod_cases3)
  let ?m = "\<lparr>Topic = topic, MessageID = msgID\<lparr>BatchIndex := i\<rparr>,
             Payload = singlePayload, Properties = properties\<rparr>"
  let ?h1 = "snd (addProperties h properties (SingleMessageMetadata.Properties singleMeta))"
  from batchLoop_step[OF lt d, of topic msgID msgs properties h] Suc.prems
  have rec: "batchLoop U topic msgID rd3 (i + 1) batchSize (msgs @ [?m]) properties ?h1 = (Inr out, h')"
    by simp
  from Suc.hyps(2) have n: "n = nat (batchSize - (i + 1))" by simp
  from Suc.hyps(1)[OF n rec]
  obtain new where new: "out = (msgs @ [?m]) @ new" "length new = nat (batchSize - (i + 1))"
    "\<forall>j < length new.
       Topic (new ! j) = topic \<and> MessageID (new ! j) = msgID\<lparr>BatchIndex := i + 1 + int j\<rparr> \<and>
       Message.Properties (new ! j) = properties"
    by blast
  have a: "out = msgs @ (?m # new)" using new(1) by simp
  have b: "length (?m # new) = nat (batchSize - i)" using new(2) lt by simp
  have c: "\<forall>j < length (?m # new).
             Topic ((?m # new) ! j) = topic \<and>
             MessageID ((?m # new) ! j) = msgID\<lparr>BatchIndex := i + int j\<rparr> \<and>
             Message.Properties ((?m # new) ! j) = properties"
  proof (intro allI impI)
    fix j assume "j < length (?m # new)"
    then show "Topic ((?m # new) ! j) = topic \<and>
               MessageID ((?m # new) ! j) = msgID\<lparr>BatchIndex := i + int j\<rparr> \<and>
               Message.Properties ((?m # new) ! j) = properties"
      using new(3) by (cases j) (auto simp: algebra_simps)
  qed
  from a b c show ?case by blast
qed



lemma unpacker_Inr:
  assumes "fst (getIndividualMsgsFromBatch U topic msgID data properties h) = Inr msgs"
    and "Atoi (mapLoad h properties BatchHeader) = Some k"
  shows "length msgs = nat k \<and> 0 \<le> k \<and>
         (\<forall>j < length msgs.
            Topic (msgs ! j) = topic \<and> MessageID (msgs ! j) = msgID\<lparr>BatchIndex := int j\<rparr> \<and>
            Message.Properties (msgs ! j) = properties)"
proof -
  from assms have nn: "\<not> k < 0" and le: "\<not> maxSliceCap < k"
    by (auto simp: getIndividualMsgsFromBatch_def split: if_splits)
  with assms have "fst (batchLoop U topic msgID data 0 k [] properties h) = Inr msgs"
    by (simp add: getIndividualMsgsFromBatch_def)
  then obtain h' where "batchLoop U topic msgID data 0 k [] properties h = (Inr msgs, h')"
    by (cases "batchLoop U topic msgID data 0 k [] properties h") auto
  from batchLoop_Inr[OF this] nn show ?thesis by auto
qed

text \<open>The part of the batch-size policy that the code has: a value Atoi rejects gives no Messages and no error.\<close>

lemma unparsable_batch_size_empty:
  "Atoi (mapLoad h properties BatchHeader) = None \<Longrightarrow>
   getIndividualMsgsFromBatch U topic msgID data properties h = (Inr [], h)"
  by (simp add: getIndividualMsgsFromBatch_def)

subsection \<open>The header loop and the peek loop\<close>

lemma headerLoop_no_batch:
  "BatchHeader \<notin> set ks \<Longrightarrow>
   \<exists>h'. headerLoop U topic ID payload hdr ks properties h =
         (Inr [NewMessage topic ID payload properties], h')"
  by (induction ks arbitrary: h) auto

lemma handleResp_plain:
  assumes "parseID (Header_Get (Header resp) ''X-Pulsar-Message-ID'') = Inr ID"
    and "Body resp = Inr body"
    and "BatchHeader \<notin> set (map fst (Header resp))"
  shows "\<exists>h'. handleResp U parseID topic resp h =
               (Inr [NewMessage topic ID body (fst (newMap h))], h')"
proof -
  obtain properties h1 where nm: "newMap h = (properties, h1)"
    by (cases "newMap h")
  from headerLoop_no_batch[OF assms(3)] obtain h' where
    "headerLoop U topic ID body (Header resp) (map fst (Header resp)) properties h1 =
       (Inr [NewMessage topic ID body properties], h')"
    by blast
  with assms(1,2) nm show ?thesis
    by (simp add: handleResp_def)
qed

lemma peekLoop_done:
  "\<not> n > 0 \<Longrightarrow> peekLoop U parseID server topic n count msgs reqs h = Some (Inr msgs, reqs, h)"
  by (subst peekLoop.simps) simp

lemma peekLoop_step:
  "n > 0 \<Longrightarrow> peekNthMessage U parseID server topic count h = (Inr m, h') \<Longrightarrow>
   peekLoop U parseID server topic n count msgs reqs h =
   peekLoop U parseID server topic (n - int (length m)) (count + 1) (msgs @ m) (reqs @ [count]) h'"
  by (subst peekLoop.simps) simp

lemma peekLoop_error:
  "n > 0 \<Longrightarrow> peekNthMessage U parseID server topic count h = (Inl e, h') \<Longrightarrow>
   peekLoop U parseID server topic n count msgs reqs h = Some (Inl e, reqs @ [count], h')"
  by (subst peekLoop.simps) simp

text \<open>
  When no step returns an empty sequence the remaining count falls with every request, so
  the loop returns, and after at most as many further requests as the count asks for.
\<close>

lemma peekLoop_bound:
  assumes ne: "\<And>pos h. nonEmptyAnswer (peekNthMessage U parseID server topic pos h)"
  shows "\<exists>res reqs' h'. peekLoop U parseID server topic n count msgs reqs h = Some (res, reqs', h')
           \<and> length reqs' \<le> length reqs + nat n"
proof (induction "nat n" arbitrary: n count msgs reqs h rule: less_induct)
  case less
  show ?case
  proof (cases "n > 0")
    case False
    then show ?thesis by (simp add: peekLoop_done)
  next
    case True
    obtain r h1 where p: "peekNthMessage U parseID server topic count h = (r, h1)"
      by (cases "peekNthMessage U parseID server topic count h")
    show ?thesis
    proof (cases r)
      case (Inl e)
      with p True show ?thesis by (simp add: peekLoop_error)
    next
      case (Inr m)
      with ne[of count h] p have m: "m \<noteq> []" by (simp add: nonEmptyAnswer_def)
      then have lt: "nat (n - int (length m)) < nat n" using True by (cases m) auto
      from less[OF lt, of "count + 1" "msgs @ m" "reqs @ [count]" h1] obtain res reqs' h' where
        "peekLoop U parseID server topic (n - int (length m)) (count + 1) (msgs @ m) (reqs @ [count]) h1
           = Some (res, reqs', h')"
        "length reqs' \<le> length (reqs @ [count]) + nat (n - int (length m))"
        by blast
      moreover have "length (reqs @ [count]) + nat (n - int (length m)) \<le> length reqs + nat n"
        using m True by (cases m) auto
      ultimately show ?thesis using peekLoop_step[OF True] p Inr by auto
    qed
  qed
qed

subsection \<open>Facts about the concrete inputs\<close>

lemma exampleBatch_result:
  "fst (getIndividualMsgsFromBatch exampleUnmarshal ''t'' exampleID exampleBatch 0 (batchStore ''2''))
     = Inr exampleMsgs"
  by code_simp

lemma batchStore_size: "Atoi (mapLoad (batchStore ''2'') 0 BatchHeader) = Some 2"
  by code_simp



lemma singleServer_answer:
  "\<exists>h'. peekNthMessage U exampleParseID singleServer topic pos h =
     (Inr [NewMessage topic exampleID [word_of_int pos] (fst (newMap h))], h')"
proof -
  have a: "exampleParseID (Header_Get [(''X-Pulsar-Message-Id'', [''7:3''])] ''X-Pulsar-Message-ID'')
             = Inr exampleID"
    by code_simp
  have b: "BatchHeader \<notin> set (map fst [(''X-Pulsar-Message-Id'', [''7:3''])])"
    by code_simp
  show ?thesis
    using handleResp_plain[of exampleParseID
        "\<lparr>Header = [(''X-Pulsar-Message-Id'', [''7:3''])], Body = Inr [word_of_int pos]\<rparr>"
        exampleID "[word_of_int pos]" U topic h] a b
    by (simp add: peekNthMessage_def singleServer_def)
qed

lemma emptyThenSingleServer_first:
  "fst (peekNthMessage exampleUnmarshal exampleParseID emptyThenSingleServer ''t'' 1 emptyHeap) = Inr []"
  by code_simp

section \<open>The claims\<close>

text \<open>
  C1. When the batch unpacker returns Messages for a batch whose declared size is the
  integer k, it returns exactly k of them, the i-th (from 0) has BatchIndex i, and each
  carries the ledger and entry of the shared MessageID.
\<close>

theorem batch_size_and_index:
  assumes "fst (getIndividualMsgsFromBatch U topic msgID data properties h) = Inr msgs"
    and "Atoi (mapLoad h properties BatchHeader) = Some k"
  shows "int (length msgs) = k \<and>
         (\<forall>i < length msgs.
            BatchIndex (MessageID (msgs ! i)) = int i \<and>
            LedgerID (MessageID (msgs ! i)) = LedgerID msgID \<and>
            EntryID (MessageID (msgs ! i)) = EntryID msgID)"
  using unpacker_Inr[OF assms] by auto

theorem batch_size_and_index_witness:
  "fst (getIndividualMsgsFromBatch exampleUnmarshal ''t'' exampleID exampleBatch 0 (batchStore ''2''))
     = Inr exampleMsgs
   \<and> Atoi (mapLoad (batchStore ''2'') 0 BatchHeader) = Some 2
   \<and> int (length exampleMsgs) = 2
   \<and> BatchIndex (MessageID (exampleMsgs ! 1)) = 1
   \<and> LedgerID (MessageID (exampleMsgs ! 1)) = LedgerID exampleID
   \<and> EntryID (MessageID (exampleMsgs ! 1)) = EntryID exampleID"
proof -
  have l: "(1::nat) < length exampleMsgs" by (simp add: exampleMsgs_def)
  from batch_size_and_index[OF exampleBatch_result batchStore_size] l
    exampleBatch_result batchStore_size
  show ?thesis by auto
qed

text \<open>
  C2. The claim: the Properties of the i-th Message are the shared properties overlaid by
  the declared properties of sub-message i only. The code stores the properties of every
  sub-message into the one map all Messages point to: in the batch of two below, where
  sub-message 0 declares a=1 and sub-message 1 declares b=2, the caller finds b=2 in
  Message 0 and a=1 in Message 1.
\<close>

theorem batch_properties_leak:
  "msgProperty (getIndividualMsgsFromBatch exampleUnmarshal ''t'' exampleID exampleBatch 0
                  (batchStore ''2'')) 0 ''b'' = Some ''2''
   \<and> msgProperty (getIndividualMsgsFromBatch exampleUnmarshal ''t'' exampleID exampleBatch 0
                  (batchStore ''2'')) 1 ''a'' = Some ''1''"
  by code_simp

text \<open>
  C3. The claim: a batch-size header that is not a valid non-negative integer gives zero
  Messages, no error and no panic. For the value -1, which Atoi accepts, the unpacker
  panics in make; handleResp passes the panic on.
\<close>

theorem negative_batch_size_panics:
  "fst (getIndividualMsgsFromBatch exampleUnmarshal ''t'' exampleID [] 0 (batchStore ''-1''))
     = Inl RuntimePanic
   \<and> fst (handleResp exampleUnmarshal exampleParseID ''t'' negativeBatchResp emptyHeap)
     = Inl RuntimePanic"
  by code_simp

text \<open>
  C4, as amended. If every peek step fails or returns at least one Message, PeekMessages
  with a requested count n that is not negative returns, and has issued at most n
  requests.
\<close>

theorem peek_requests_bounded:
  assumes "\<And>pos h. nonEmptyAnswer (peekNthMessage U parseID server topic pos h)"
    and "0 \<le> n"
  shows "requestsWithin n (PeekMessages U parseID server topic n h)"
proof -
  from peekLoop_bound[OF assms(1), of n 1 "[]" "[]" h] obtain res reqs' h' where
    "peekLoop U parseID server topic n 1 [] [] h = Some (res, reqs', h')"
    "length reqs' \<le> length ([]::int list) + nat n"
    by blast
  with assms(2) show ?thesis by (simp add: requestsWithin_def PeekMessages_def)
qed

theorem peek_requests_bounded_witness:
  "(\<forall>pos h. nonEmptyAnswer (peekNthMessage exampleUnmarshal exampleParseID singleServer ''t'' pos h))
   \<and> (0::int) \<le> 3
   \<and> requestsWithin 3 (PeekMessages exampleUnmarshal exampleParseID singleServer ''t'' 3 emptyHeap)"
proof -
  have ne: "nonEmptyAnswer (peekNthMessage exampleUnmarshal exampleParseID singleServer ''t'' pos h)"
    for pos h
    using singleServer_answer[of exampleUnmarshal "''t''" pos h]
    by (auto simp: nonEmptyAnswer_def)
  have n: "(0::int) \<le> 3" by simp
  from peek_requests_bounded[OF ne n] ne show ?thesis by simp
qed

text \<open>
  The claim as stated, for any sequence of response sizes, fails: with a first response
  that is a batch of declared size 0, a requested count of 1 takes two requests.
\<close>

theorem peek_requests_unbounded:
  "\<not> requestsWithin 1
       (PeekMessages exampleUnmarshal exampleParseID emptyThenSingleServer ''t'' 1 emptyHeap)"
proof -
  let ?P = "peekNthMessage exampleUnmarshal exampleParseID emptyThenSingleServer ''t''"
  obtain h1 where p1: "?P 1 emptyHeap = (Inr [], h1)"
    using emptyThenSingleServer_first by (cases "?P 1 emptyHeap") auto
  have "emptyThenSingleServer 2 = singleServer 2"
    by (simp add: emptyThenSingleServer_def)
  then have "?P 2 h1 = peekNthMessage exampleUnmarshal exampleParseID singleServer ''t'' 2 h1"
    by (simp add: peekNthMessage_def)
  with singleServer_answer[of exampleUnmarshal "''t''" 2 h1] obtain m h2 where
    p2: "?P 2 h1 = (Inr [m], h2)"
    by auto
  have "peekLoop exampleUnmarshal exampleParseID emptyThenSingleServer ''t'' 1 1 [] [] emptyHeap
        = peekLoop exampleUnmarshal exampleParseID emptyThenSingleServer ''t'' 1 2 [] [1] h1"
    using peekLoop_step[OF _ p1, of 1 "[]" "[]"] by simp
  also have "\<dots> = peekLoop exampleUnmarshal exampleParseID emptyThenSingleServer ''t'' 0 3 [m] [1, 2] h2"
    using peekLoop_step[OF _ p2, of 1 "[]" "[1]"] by simp
  also have "\<dots> = Some (Inr [m], [1, 2], h2)"
    by (simp add: peekLoop_done)
  finally show ?thesis
    by (simp add: PeekMessages_def requestsWithin_def)
qed




text \<open>
  C6. For a response whose message-ID header parses, whose body can be read and which has
  no batch-size header, handleResp returns exactly one Message, and its Payload is the
  whole body.
\<close>

theorem non_batched_single_message:
  assumes "parseID (Header_Get (Header resp) ''X-Pulsar-Message-ID'') = Inr ID"
    and "Body resp = Inr body"
    and "BatchHeader \<notin> set (map fst (Header resp))"
  shows "\<exists>m h'. handleResp U parseID topic resp h = (Inr [m], h') \<and> Payload m = body"
  using handleResp_plain[of parseID resp ID body U topic h, OF assms]
  by (auto simp: NewMessage_def)

theorem non_batched_single_message_witness:
  "exampleParseID (Header_Get (Header plainResp) ''X-Pulsar-Message-ID'') = Inr exampleID
   \<and> Body plainResp = Inr [0x78, 0x79]
   \<and> BatchHeader \<notin> set (map fst (Header plainResp))
   \<and> (\<exists>m h'. handleResp exampleUnmarshal exampleParseID ''t'' plainResp emptyHeap = (Inr [m], h')
              \<and> Payload m = [0x78, 0x79])"
proof -
  have a: "exampleParseID (Header_Get (Header plainResp) ''X-Pulsar-Message-ID'') = Inr exampleID"
    by code_simp
  have b: "Body plainResp = Inr [0x78, 0x79]"
    by (simp add: plainResp_def)
  have c: "BatchHeader \<notin> set (map fst (Header plainResp))"
    by code_simp
  from non_batched_single_message[of exampleParseID plainResp exampleID "[0x78, 0x79]"
      exampleUnmarshal "''t''" emptyHeap, OF a b c] a b c
  show ?thesis by blast
qed

text \<open>
  C7. When every position answers with exactly one Message, PeekMessages with a requested
  count of 5 issues the requests for positions 1, 2, 3, 4, 5 in that order and no other,
  and returns the five Messages in the order of their positions.
\<close>

theorem peek_five_singles:
  assumes one: "\<And>pos h. \<exists>m h'. peekNthMessage U parseID server topic pos h = (Inr [m], h')"
  shows "\<exists>m1 m2 m3 m4 m5 h1 h2 h3 h4 h5.
           peekNthMessage U parseID server topic 1 h = (Inr [m1], h1) \<and>
           peekNthMessage U parseID server topic 2 h1 = (Inr [m2], h2) \<and>
           peekNthMessage U parseID server topic 3 h2 = (Inr [m3], h3) \<and>
           peekNthMessage U parseID server topic 4 h3 = (Inr [m4], h4) \<and>
           peekNthMessage U parseID server topic 5 h4 = (Inr [m5], h5) \<and>
           PeekMessages U parseID server topic 5 h =
             Some (Inr [m1, m2, m3, m4, m5], [1, 2, 3, 4, 5], h5)"
proof -
  from one obtain m1 h1 where p1: "peekNthMessage U parseID server topic 1 h = (Inr [m1], h1)" by blast
  from one obtain m2 h2 where p2: "peekNthMessage U parseID server topic 2 h1 = (Inr [m2], h2)" by blast
  from one obtain m3 h3 where p3: "peekNthMessage U parseID server topic 3 h2 = (Inr [m3], h3)" by blast
  from one obtain m4 h4 where p4: "peekNthMessage U parseID server topic 4 h3 = (Inr [m4], h4)" by blast
  from one obtain m5 h5 where p5: "peekNthMessage U parseID server topic 5 h4 = (Inr [m5], h5)" by blast
  have "peekLoop U parseID server topic 5 1 [] [] h = peekLoop U parseID server topic 4 2 [m1] [1] h1"
    using peekLoop_step[OF _ p1, of 5 "[]" "[]"] by simp
  also have "\<dots> = peekLoop U parseID server topic 3 3 [m1, m2] [1, 2] h2"
    using peekLoop_step[OF _ p2, of 4 "[m1]" "[1]"] by simp
  also have "\<dots> = peekLoop U parseID server topic 2 4 [m1, m2, m3] [1, 2, 3] h3"
    using peekLoop_step[OF _ p3, of 3 "[m1, m2]" "[1, 2]"] by simp
  also have "\<dots> = peekLoop U parseID server topic 1 5 [m1, m2, m3, m4] [1, 2, 3, 4] h4"
    using peekLoop_step[OF _ p4, of 2 "[m1, m2, m3]" "[1, 2, 3]"] by simp
  also have "\<dots> = peekLoop U parseID server topic 0 6 [m1, m2, m3, m4, m5] [1, 2, 3, 4, 5] h5"
    using peekLoop_step[OF _ p5, of 1 "[m1, m2, m3, m4]" "[1, 2, 3, 4]"] by simp
  also have "\<dots> = Some (Inr [m1, m2, m3, m4, m5], [1, 2, 3, 4, 5], h5)"
    by (simp add: peekLoop_done)
  finally have "PeekMessages U parseID server topic 5 h =
                  Some (Inr [m1, m2, m3, m4, m5], [1, 2, 3, 4, 5], h5)"
    by (simp add: PeekMessages_def)
  with p1 p2 p3 p4 p5 show ?thesis by blast
qed

theorem peek_five_singles_witness:
  "(\<forall>pos h. \<exists>m h'. peekNthMessage exampleUnmarshal exampleParseID singleServer ''t'' pos h
                      = (Inr [m], h'))
   \<and> requestsOf (PeekMessages exampleUnmarshal exampleParseID singleServer ''t'' 5 emptyHeap)
       = Some [1, 2, 3, 4, 5]
   \<and> payloadsOf (PeekMessages exampleUnmarshal exampleParseID singleServer ''t'' 5 emptyHeap)
       = Some [[1], [2], [3], [4], [5]]"
proof -
  let ?P = "peekNthMessage exampleUnmarshal exampleParseID singleServer ''t''"
  have one: "\<exists>m h'. ?P pos h = (Inr [m], h')" for pos h
    using singleServer_answer[of exampleUnmarshal "''t''" pos h] by blast
  have pl: "Payload m = [word_of_int pos]" if "?P pos h = (Inr [m], h')" for pos h m h'
    using singleServer_answer[of exampleUnmarshal "''t''" pos h] that
    by (auto simp: NewMessage_def)
  from peek_five_singles[OF one, of emptyHeap] obtain m1 m2 m3 m4 m5 h1 h2 h3 h4 h5 where
    p: "?P 1 emptyHeap = (Inr [m1], h1)" "?P 2 h1 = (Inr [m2], h2)" "?P 3 h2 = (Inr [m3], h3)"
       "?P 4 h3 = (Inr [m4], h4)" "?P 5 h4 = (Inr [m5], h5)" and
    r: "PeekMessages exampleUnmarshal exampleParseID singleServer ''t'' 5 emptyHeap =
          Some (Inr [m1, m2, m3, m4, m5], [1, 2, 3, 4, 5], h5)"
    by blast
  from p have "map Payload [m1, m2, m3, m4, m5] = [[1], [2], [3], [4], [5]]"
    using pl[of 1 emptyHeap m1 h1] pl[of 2 h1 m2 h2] pl[of 3 h2 m3 h3] pl[of 4 h3 m4 h4]
      pl[of 5 h4 m5 h5]
    by simp
  with r one show ?thesis
    by (simp add: requestsOf_def payloadsOf_def)
qed

text \<open>
  C8. The claim: a header made of the reserved prefix and the local name foo, with value
  bar, gives every Message of the response the property foo = bar, batched or not and in
  every scan order. The code does not: the key as net/http delivers it does not contain
  the prefix constant, so no property is set; for the key as the wire spells it, Get looks
  up the canonical form and foo is set to the empty string; and in a batched response
  whose batch-size key is scanned first the property header is never read.
\<close>

theorem custom_property_lost:
  "numMsgs (handleResp exampleUnmarshal exampleParseID ''t'' deliveredPropertyResp emptyHeap) = Some 1
   \<and> msgProperty (handleResp exampleUnmarshal exampleParseID ''t'' deliveredPropertyResp emptyHeap)
       0 ''foo'' = None
   \<and> numMsgs (handleResp exampleUnmarshal exampleParseID ''t'' literalPropertyResp emptyHeap) = Some 1
   \<and> msgProperty (handleResp exampleUnmarshal exampleParseID ''t'' literalPropertyResp emptyHeap)
       0 ''foo'' = Some []
   \<and> numMsgs (handleResp exampleUnmarshal exampleParseID ''t'' batchFirstResp emptyHeap) = Some 1
   \<and> msgProperty (handleResp exampleUnmarshal exampleParseID ''t'' batchFirstResp emptyHeap)
       0 ''foo'' = None"
  by code_simp

text \<open>
  C9. All Messages returned for one batch have the same Properties mapping: whatever two
  of them the caller picks, it reads the same key-to-value mapping in both.
\<close>

theorem batch_properties_shared:
  assumes "fst (getIndividualMsgsFromBatch U topic msgID data properties h) = Inr msgs"
    and "i < length msgs" and "j < length msgs"
  shows "propsOf (snd (getIndividualMsgsFromBatch U topic msgID data properties h)) (msgs ! i) =
         propsOf (snd (getIndividualMsgsFromBatch U topic msgID data properties h)) (msgs ! j)"
proof -
  have "\<forall>n < length msgs. Message.Properties (msgs ! n) = properties"
  proof (cases "Atoi (mapLoad h properties BatchHeader)")
    case None
    with assms(1) show ?thesis by (auto simp: getIndividualMsgsFromBatch_def)
  next
    case (Some k)
    from unpacker_Inr[OF assms(1) Some] show ?thesis by blast
  qed
  with assms(2,3) show ?thesis by (simp add: propsOf_def)
qed

theorem batch_properties_shared_witness:
  "fst (getIndividualMsgsFromBatch exampleUnmarshal ''t'' exampleID exampleBatch 0 (batchStore ''2''))
     = Inr exampleMsgs
   \<and> 0 < length exampleMsgs \<and> 1 < length exampleMsgs
   \<and> propsOf (snd (getIndividualMsgsFromBatch exampleUnmarshal ''t'' exampleID exampleBatch 0
                     (batchStore ''2''))) (exampleMsgs ! 0) =
     propsOf (snd (getIndividualMsgsFromBatch exampleUnmarshal ''t'' exampleID exampleBatch 0
                     (batchStore ''2''))) (exampleMsgs ! 1)"
proof -
  have l: "0 < length exampleMsgs" "1 < length exampleMsgs" by (simp_all add: exampleMsgs_def)
  from batch_properties_shared[OF exampleBatch_result l] l exampleBatch_result
  show ?thesis by simp
qed

text \<open>
  C10. For a requested count n that is zero or negative, PeekMessages issues no request and
  returns an empty sequence of Messages and no error.
\<close>

theorem peek_nonpositive:
  "n \<le> 0 \<Longrightarrow> PeekMessages U parseID server topic n h = Some (Inr [], [], h)"
  by (simp add: PeekMessages_def peekLoop_done)

theorem peek_nonpositive_witness:
  "(- 2 :: int) \<le> 0
   \<and> PeekMessages exampleUnmarshal exampleParseID singleServer ''t'' (- 2) emptyHeap
       = Some (Inr [], [], emptyHeap)"
proof -
  have n: "(- 2 :: int) \<le> 0" by simp
  from peek_nonpositive[OF n, of exampleUnmarshal exampleParseID singleServer "''t''" emptyHeap] n
  show ?thesis by simp
qed

end
